theory Spec2Isabelle
  imports Main "HOL-Library.Word"
begin

section \<open>Asset names of spx-gui: \<^verbatim>\<open>src/models/common/asset-name.ts\<close>\<close>

subsection \<open>Strings\<close>

text \<open>
  A JavaScript string is a sequence of UTF-16 code units: \<^verbatim>\<open>name.length\<close> counts code
  units, and a regular expression without the \<^verbatim>\<open>u\<close> flag matches code unit by code
  unit. \<open>str\<close> writes an ASCII literal of the source as such a string.
\<close>

type_synonym jschar = "16 word"
type_synonym jsstring = "jschar list"

definition str :: "string \<Rightarrow> jsstring" where
  "str s = map of_char s"

definition underscore :: jschar where
  "underscore = 0x5F"

definition isUpper :: "jschar \<Rightarrow> bool" where
  "isUpper c = (0x41 \<le> c \<and> c \<le> 0x5A)"

definition isLower :: "jschar \<Rightarrow> bool" where
  "isLower c = (0x61 \<le> c \<and> c \<le> 0x7A)"

definition isDigit :: "jschar \<Rightarrow> bool" where
  "isDigit c = (0x30 \<le> c \<and> c \<le> 0x39)"

text \<open>The range U+4E00 to U+9FA5 of the source's regular expression (written CJK below).\<close>

definition isCJK :: "jschar \<Rightarrow> bool" where
  "isCJK c = (0x4E00 \<le> c \<and> c \<le> 0x9FA5)"

text \<open>
  \<^verbatim>\<open>toLowerCase\<close> and \<^verbatim>\<open>toUpperCase\<close> on ASCII code units. The source applies them
  only to strings over \<^verbatim>\<open>[A-Za-z0-9_]\<close> (lemmas \<open>toLowerCase_input_ascii\<close> and
  \<open>upFirst_input_ascii\<close> below), where the built-in functions map unit by unit and
  change the letters only.
\<close>

definition toLowerCase :: "jsstring \<Rightarrow> jsstring" where
  "toLowerCase s = map (\<lambda>c. if isUpper c then c + 0x20 else c) s"

definition toUpperCase :: "jsstring \<Rightarrow> jsstring" where
  "toUpperCase s = map (\<lambda>c. if isLower c then c - 0x20 else c) s"

text \<open>
  \<^verbatim>\<open>base + i\<close> for a number \<^verbatim>\<open>i\<close>: the decimal digits of a non-negative integer.
\<close>

fun numberToString :: "nat \<Rightarrow> jsstring" where
  "numberToString n =
     (if n < 10 then [of_nat (48 + n)]
      else numberToString (n div 10) @ [of_nat (48 + n mod 10)])"

declare numberToString.simps [simp del]

text \<open>\<^verbatim>\<open>s.split(sep)\<close> for a separator of one code unit; \<open>acc\<close> holds the current part, reversed.\<close>

fun split_from :: "jschar \<Rightarrow> jsstring \<Rightarrow> jsstring \<Rightarrow> jsstring list" where
  "split_from sep acc [] = [rev acc]"
| "split_from sep acc (c # cs) =
     (if c = sep then rev acc # split_from sep [] cs else split_from sep (c # acc) cs)"

definition split :: "jsstring \<Rightarrow> jschar \<Rightarrow> jsstring list" where
  "split s sep = split_from sep [] s"

subsection \<open>The data the module reads\<close>

text \<open>
  Modelled from the spec: the reserved-word tables \<^verbatim>\<open>keywords\<close> and \<^verbatim>\<open>typeKeywords\<close>
  are imported from \<^verbatim>\<open>@/utils/spx\<close>, which is not part of the sources at hand. They are
  two fixed lists of strings, passed to every function that reads them.
\<close>

record spx =
  typeKeywords :: "jsstring list"
  "keywords" :: "jsstring list"

text \<open>
  Modelled from the spec: the types \<^verbatim>\<open>Project\<close>, \<^verbatim>\<open>Sprite\<close> and \<^verbatim>\<open>Stage\<close> are
  imported as types only. A scope holds ordered collections of children, and the module
  reads nothing of a child but its \<^verbatim>\<open>name\<close>.
\<close>

record costume =
  costume_name :: jsstring

record sprite =
  sprite_name :: jsstring
  costumes :: "costume list"

record sound =
  sound_name :: jsstring

record backdrop =
  backdrop_name :: jsstring

record project =
  sprites :: "sprite list"
  sounds :: "sound list"

record stage =
  backdrops :: "backdrop list"

text \<open>A validation error: the bilingual message. No error is \<open>None\<close>.\<close>

record message =
  en :: jsstring
  zh :: jsstring

text \<open>What the module can throw.\<close>

datatype error =
    TypeError
  | Error jsstring

datatype cas = Camel | Pascal

subsection \<open>Validation\<close>

definition isNameStart :: "jschar \<Rightarrow> bool" where
  "isNameStart c = (isCJK c \<or> isLower c \<or> isUpper c \<or> c = underscore)"

definition isNamePart :: "jschar \<Rightarrow> bool" where
  "isNamePart c = (isCJK c \<or> isLower c \<or> isUpper c \<or> isDigit c \<or> c = underscore)"

text \<open>\<^verbatim>\<open>/^[CJKa-zA-Z_][CJKa-zA-Z0-9_]*$/.test(name)\<close>: no flag, so \<^verbatim>\<open>$\<close> is the end of the input.\<close>

fun regex_test :: "jsstring \<Rightarrow> bool" where
  "regex_test [] = False"
| "regex_test (c # cs) = (isNameStart c \<and> list_all isNamePart cs)"

definition msg_blank :: message where
  "msg_blank = \<lparr>en = str ''The name must not be blank'',
     zh = [0x540D, 0x5B57, 0x4E0D, 0x53EF, 0x4E3A, 0x7A7A]\<rparr>"

definition msg_too_long :: message where
  "msg_too_long = \<lparr>en = str ''The name is too long (maximum is 100 characters)'',
     zh = [0x540D, 0x5B57, 0x957F, 0x5EA6, 0x8D85, 0x51FA, 0x9650, 0x5236, 0xFF08, 0x6700,
           0x591A, 0x0020, 0x0031, 0x0030, 0x0030, 0x0020, 0x4E2A, 0x5B57, 0x7B26, 0xFF09]\<rparr>"

definition msg_invalid :: message where
  "msg_invalid = \<lparr>en = str ''Invalid name'', zh = [0x683C, 0x5F0F, 0x4E0D, 0x6B63, 0x786E]\<rparr>"

definition msg_keyword :: message where
  "msg_keyword = \<lparr>en = str ''Conflict with keywords'',
     zh = [0x4E0E, 0x5173, 0x952E, 0x5B57, 0x51B2, 0x7A81]\<rparr>"

definition validateAssetName :: "spx \<Rightarrow> jsstring \<Rightarrow> message option" where
  "validateAssetName kw name =
     (if name = [] then Some msg_blank
      else if length name > 100 then Some msg_too_long
      else if \<not> regex_test name then Some msg_invalid
      else if name \<in> set (typeKeywords kw) then Some msg_keyword
      else if name \<in> set (keywords kw) then Some msg_keyword
      else None)"

definition msg_sprite_exists :: "jsstring \<Rightarrow> message" where
  "msg_sprite_exists name = \<lparr>en = str ''Sprite with name '' @ name @ str '' already exists'',
     zh = [0x5B58, 0x5728, 0x540C, 0x540D, 0x7684, 0x7CBE, 0x7075]\<rparr>"

definition msg_sound_exists :: "jsstring \<Rightarrow> message" where
  "msg_sound_exists name = \<lparr>en = str ''Sound with name '' @ name @ str '' already exists'',
     zh = [0x5B58, 0x5728, 0x540C, 0x540D, 0x7684, 0x58F0, 0x97F3]\<rparr>"

definition msg_costume_exists :: "jsstring \<Rightarrow> message" where
  "msg_costume_exists name = \<lparr>en = str ''Costume with name '' @ name @ str '' already exists'',
     zh = [0x5B58, 0x5728, 0x540C, 0x540D, 0x7684, 0x9020, 0x578B]\<rparr>"

definition msg_backdrop_exists :: "jsstring \<Rightarrow> message" where
  "msg_backdrop_exists name = \<lparr>en = str ''Backdrop with name '' @ name @ str '' already exists'',
     zh = [0x5B58, 0x5728, 0x540C, 0x540D, 0x7684, 0x80CC, 0x666F]\<rparr>"

text \<open>
  \<^verbatim>\<open>xs.find(p)\<close> is the first element that satisfies \<^verbatim>\<open>p\<close>, or \<^verbatim>\<open>undefined\<close>; an
  object is truthy, so the condition holds when \<open>find\<close> is not \<open>None\<close>.
\<close>

definition validateSpriteName :: "spx \<Rightarrow> jsstring \<Rightarrow> project option \<Rightarrow> message option" where
  "validateSpriteName kw name project =
     (case validateAssetName kw name of
        Some err \<Rightarrow> Some err
      | None \<Rightarrow>
          (case project of
             None \<Rightarrow> None
           | Some p \<Rightarrow>
               if find (\<lambda>s. sprite_name s = name) (sprites p) \<noteq> None
                 then Some (msg_sprite_exists name)
               else if find (\<lambda>s. sound_name s = name) (sounds p) \<noteq> None
                 then Some (msg_sound_exists name)
               else None))"

definition validateCostumeName :: "spx \<Rightarrow> jsstring \<Rightarrow> sprite option \<Rightarrow> message option" where
  "validateCostumeName kw name sprite =
     (case validateAssetName kw name of
        Some err \<Rightarrow> Some err
      | None \<Rightarrow>
          (case sprite of
             None \<Rightarrow> None
           | Some s \<Rightarrow>
               if find (\<lambda>c. costume_name c = name) (costumes s) \<noteq> None
                 then Some (msg_costume_exists name)
               else None))"

definition validateSoundName :: "spx \<Rightarrow> jsstring \<Rightarrow> project option \<Rightarrow> message option" where
  "validateSoundName kw name project = validateSpriteName kw name project"

definition validateBackdropName :: "spx \<Rightarrow> jsstring \<Rightarrow> stage option \<Rightarrow> message option" where
  "validateBackdropName kw name stage =
     (case validateAssetName kw name of
        Some err \<Rightarrow> Some err
      | None \<Rightarrow>
          (case stage of
             None \<Rightarrow> None
           | Some s \<Rightarrow>
               if find (\<lambda>b. backdrop_name b = name) (backdrops s) \<noteq> None
                 then Some (msg_backdrop_exists name)
               else None))"

subsection \<open>Normalisation\<close>

text \<open>\<^verbatim>\<open>str[0].toUpperCase() + str.slice(1)\<close>: \<^verbatim>\<open>str[0]\<close> of the empty string is
  \<^verbatim>\<open>undefined\<close>, and the method call on it throws a TypeError.\<close>

fun upFirst :: "jsstring \<Rightarrow> error + jsstring" where
  "upFirst [] = Inl TypeError"
| "upFirst (c # cs) = Inr (toUpperCase [c] @ cs)"

definition isWordChar :: "jschar \<Rightarrow> bool" where
  "isWordChar c = (isLower c \<or> isUpper c \<or> isDigit c \<or> c = underscore)"

definition isLetter :: "jschar \<Rightarrow> bool" where
  "isLetter c = (isLower c \<or> isUpper c)"

text \<open>\<^verbatim>\<open>.replace(/[^a-zA-Z0-9_]+/g, '_')\<close>: every maximal run of other code units
  becomes one underscore.\<close>

function replaceInvalidRuns :: "jsstring \<Rightarrow> jsstring" where
  "replaceInvalidRuns [] = []"
| "replaceInvalidRuns (c # cs) =
     (if isWordChar c then c # replaceInvalidRuns cs
      else underscore # replaceInvalidRuns (dropWhile (\<lambda>d. \<not> isWordChar d) cs))"
  by pat_completeness auto
termination
  by (relation "measure length") (auto simp: less_Suc_eq_le length_dropWhile_le)

text \<open>\<^verbatim>\<open>.replace(/([A-Z])/g, '_$1')\<close>\<close>

definition markUpper :: "jsstring \<Rightarrow> jsstring" where
  "markUpper s = concat (map (\<lambda>c. if isUpper c then [underscore, c] else [c]) s)"

text \<open>\<^verbatim>\<open>.replace(/^[^a-zA-Z]+/, '')\<close>\<close>

definition stripStart :: "jsstring \<Rightarrow> jsstring" where
  "stripStart s = dropWhile (\<lambda>c. \<not> isLetter c) s"

text \<open>\<^verbatim>\<open>xs.map(f)\<close> for an \<^verbatim>\<open>f\<close> that can throw: the first exception ends the map.\<close>

fun map_throwing :: "('a \<Rightarrow> error + 'b) \<Rightarrow> 'a list \<Rightarrow> error + 'b list" where
  "map_throwing f [] = Inr []"
| "map_throwing f (x # xs) =
     (case f x of
        Inl e \<Rightarrow> Inl e
      | Inr y \<Rightarrow> (case map_throwing f xs of Inl e \<Rightarrow> Inl e | Inr ys \<Rightarrow> Inr (y # ys)))"

text \<open>The word fragments \<^verbatim>\<open>parts\<close> of \<^verbatim>\<open>normalizeAssetName\<close>.\<close>

definition parts :: "jsstring \<Rightarrow> jsstring list" where
  "parts src =
     filter (\<lambda>p. p \<noteq> [])
       (split (stripStart (toLowerCase (markUpper (replaceInvalidRuns src)))) underscore)"

definition normalizeAssetName :: "jsstring \<Rightarrow> cas \<Rightarrow> error + jsstring" where
  "normalizeAssetName src cas =
     (case parts src of
        [] \<Rightarrow> Inr []
      | firstpart # otherParts \<Rightarrow>
          (case (if cas = Pascal then upFirst firstpart else Inr firstpart) of
             Inl e \<Rightarrow> Inl e
           | Inr f \<Rightarrow>
               (case map_throwing upFirst otherParts of
                  Inl e \<Rightarrow> Inl e
                | Inr os \<Rightarrow> Inr (take 20 (concat (f # os))))))"

subsection \<open>Unique names\<close>

text \<open>
  The loop of \<^verbatim>\<open>getValidName\<close>, from iteration \<open>i\<close> on. Beside the outcome it returns how
  often \<^verbatim>\<open>isValid\<close> has been called, \<open>calls\<close> being the number of calls before.
\<close>

function getValidName_loop ::
  "jsstring \<Rightarrow> (jsstring \<Rightarrow> bool) \<Rightarrow> nat \<Rightarrow> nat \<Rightarrow> (error + jsstring) \<times> nat" where
  "getValidName_loop base isValid i calls =
     (let name = (if i = 1 then base else base @ numberToString i) in
      if isValid name then (Inr name, calls + 1)
      else if i > 10000
        then (Inl (Error (str ''unexpected infinite loop with base '' @ base)), calls + 1)
      else getValidName_loop base isValid (i + 1) (calls + 1))"
  by pat_completeness auto
termination
  by (relation "measure (\<lambda>(base, isValid, i, calls). 10001 - i)") auto

declare getValidName_loop.simps [simp del]

definition getValidName :: "jsstring \<Rightarrow> (jsstring \<Rightarrow> bool) \<Rightarrow> error + jsstring" where
  "getValidName base isValid = fst (getValidName_loop base isValid 1 0)"

definition getValidName_calls :: "jsstring \<Rightarrow> (jsstring \<Rightarrow> bool) \<Rightarrow> nat" where
  "getValidName_calls base isValid = snd (getValidName_loop base isValid 1 0)"

text \<open>The candidate of iteration \<open>i\<close>: \<^verbatim>\<open>i === 1 ? base : base + i\<close>.\<close>

definition candidate :: "jsstring \<Rightarrow> nat \<Rightarrow> jsstring" where
  "candidate base i = (if i = 1 then base else base @ numberToString i)"

text \<open>\<^verbatim>\<open>normalizeAssetName(base, cas) || dflt\<close>: the empty string is falsy.\<close>

definition normalizedOr :: "jsstring \<Rightarrow> cas \<Rightarrow> jsstring \<Rightarrow> error + jsstring" where
  "normalizedOr base cas dflt =
     (case normalizeAssetName base cas of
        Inl e \<Rightarrow> Inl e
      | Inr b \<Rightarrow> Inr (if b = [] then dflt else b))"

definition getSpriteName :: "spx \<Rightarrow> project option \<Rightarrow> jsstring \<Rightarrow> error + jsstring" where
  "getSpriteName kw project base =
     (case normalizedOr base Pascal (str ''Sprite'') of
        Inl e \<Rightarrow> Inl e
      | Inr b \<Rightarrow> getValidName b (\<lambda>n. validateSpriteName kw n project = None))"

definition ensureValidSpriteName :: "spx \<Rightarrow> jsstring \<Rightarrow> project option \<Rightarrow> error + jsstring" where
  "ensureValidSpriteName kw name project =
     (if validateSpriteName kw name project = None then Inr name
      else getSpriteName kw project name)"

definition getCostumeName :: "spx \<Rightarrow> sprite option \<Rightarrow> jsstring \<Rightarrow> error + jsstring" where
  "getCostumeName kw sprite base =
     (case normalizedOr base Camel (str ''costume'') of
        Inl e \<Rightarrow> Inl e
      | Inr b \<Rightarrow> getValidName b (\<lambda>n. validateCostumeName kw n sprite = None))"

definition ensureValidCostumeName :: "spx \<Rightarrow> jsstring \<Rightarrow> sprite option \<Rightarrow> error + jsstring" where
  "ensureValidCostumeName kw name sprite =
     (if validateCostumeName kw name sprite = None then Inr name
      else getCostumeName kw sprite name)"

definition getSoundName :: "spx \<Rightarrow> project option \<Rightarrow> jsstring \<Rightarrow> error + jsstring" where
  "getSoundName kw project base =
     (case normalizedOr base Camel (str ''sound'') of
        Inl e \<Rightarrow> Inl e
      | Inr b \<Rightarrow> getValidName b (\<lambda>n. validateSoundName kw n project = None))"

definition ensureValidSoundName :: "spx \<Rightarrow> jsstring \<Rightarrow> project option \<Rightarrow> error + jsstring" where
  "ensureValidSoundName kw name project =
     (if validateSoundName kw name project = None then Inr name
      else getSoundName kw project name)"

definition getBackdropName :: "spx \<Rightarrow> stage option \<Rightarrow> jsstring \<Rightarrow> error + jsstring" where
  "getBackdropName kw stage base =
     (case normalizedOr base Camel (str ''backdrop'') of
        Inl e \<Rightarrow> Inl e
      | Inr b \<Rightarrow> getValidName b (\<lambda>n. validateBackdropName kw n stage = None))"

definition ensureValidBackdropName :: "spx \<Rightarrow> jsstring \<Rightarrow> stage option \<Rightarrow> error + jsstring" where
  "ensureValidBackdropName kw name stage =
     (if validateBackdropName kw name stage = None then Inr name
      else getBackdropName kw stage name)"

subsection \<open>Example data\<close>

text \<open>
  A small reserved-word table and small scopes, for evaluating the functions on concrete
  inputs. The table stands for the one of \<^verbatim>\<open>@/utils/spx\<close>; no general statement
  below depends on it.
\<close>

definition example_spx :: spx where
  "example_spx = \<lparr>typeKeywords = [str ''int'', str ''string''],
     keywords = [str ''func'', str ''if'']\<rparr>"

definition example_sprite :: sprite where
  "example_sprite = \<lparr>sprite_name = str ''Cat'',
     costumes = [\<lparr>costume_name = str ''walk''\<rparr>, \<lparr>costume_name = str ''walk2''\<rparr>]\<rparr>"

definition example_project :: project where
  "example_project = \<lparr>sprites = [example_sprite], sounds = [\<lparr>sound_name = str ''meow''\<rparr>]\<rparr>"

definition example_stage :: stage where
  "example_stage = \<lparr>backdrops = [\<lparr>backdrop_name = str ''backdrop''\<rparr>]\<rparr>"

definition foo_project :: project where
  "foo_project = \<lparr>sprites = [\<lparr>sprite_name = str ''Foo'', costumes = []\<rparr>,
     \<lparr>sprite_name = str ''Foo2'', costumes = []\<rparr>], sounds = []\<rparr>"

definition foo_only :: project where
  "foo_only = \<lparr>sprites = [\<lparr>sprite_name = str ''Foo'', costumes = []\<rparr>], sounds = []\<rparr>"

section \<open>Properties\<close>

subsection \<open>The normaliser's stages\<close>

lemma isUpper_toLower: "isUpper c \<Longrightarrow> isLower (c + 0x20)"
  unfolding isUpper_def isLower_def
  by (simp add: word_le_nat_alt unat_add_lem [THEN iffD1])

lemma replaceInvalidRuns_word: "c \<in> set (replaceInvalidRuns s) \<Longrightarrow> isWordChar c"
proof (induction s rule: replaceInvalidRuns.induct)
  case 1
  then show ?case by simp
next
  case (2 d cs)
  show ?case
  proof (cases "isWordChar d")
    case True
    with 2 show ?thesis by auto
  next
    case False
    with 2 show ?thesis by (auto simp: isWordChar_def)
  qed
qed

lemma markUpper_word: "c \<in> set (markUpper s) \<Longrightarrow> c \<in> set s \<or> c = underscore"
  by (auto simp: markUpper_def split: if_splits)

lemma toLowerCase_input_ascii:
  "c \<in> set (markUpper (replaceInvalidRuns src)) \<Longrightarrow> isWordChar c"
  using markUpper_word [of c "replaceInvalidRuns src"] replaceInvalidRuns_word [of c src]
  by (auto simp: isWordChar_def)

lemma toLowerCase_word:
  assumes "\<And>c. c \<in> set s \<Longrightarrow> isWordChar c" and "d \<in> set (toLowerCase s)"
  shows "isLower d \<or> isDigit d \<or> d = underscore"
proof -
  from assms(2) obtain c where c: "c \<in> set s" and d: "d = (if isUpper c then c + 0x20 else c)"
    by (auto simp: toLowerCase_def)
  from assms(1) [OF c] show ?thesis
    unfolding d using isUpper_toLower [of c] by (auto simp: isWordChar_def)
qed

lemma split_from_units:
  "p \<in> set (split_from sep acc s) \<Longrightarrow> c \<in> set p \<Longrightarrow> c \<in> set acc \<or> (c \<in> set s \<and> c \<noteq> sep)"
  by (induction sep acc s rule: split_from.induct) (auto split: if_splits)

lemma split_units: "p \<in> set (split s sep) \<Longrightarrow> c \<in> set p \<Longrightarrow> c \<in> set s \<and> c \<noteq> sep"
  using split_from_units [of p sep "[]" s c] by (simp add: split_def)

lemma stripStart_subset: "c \<in> set (stripStart s) \<Longrightarrow> c \<in> set s"
  unfolding stripStart_def by (rule set_dropWhileD)

lemma upFirst_input_ascii:
  assumes "p \<in> set (parts src)" and "c \<in> set p"
  shows "isLower c \<or> isDigit c"
proof -
  let ?low = "toLowerCase (markUpper (replaceInvalidRuns src))"
  from assms(1) have "p \<in> set (split (stripStart ?low) underscore)"
    by (simp add: parts_def)
  from split_units [OF this assms(2)]
  have in_strip: "c \<in> set (stripStart ?low)" and ne: "c \<noteq> underscore" by simp_all
  from in_strip have "c \<in> set ?low" by (rule stripStart_subset)
  then have "isLower c \<or> isDigit c \<or> c = underscore"
    by (rule toLowerCase_word [rotated]) (rule toLowerCase_input_ascii)
  with ne show ?thesis by simp
qed

lemma parts_nonempty: "p \<in> set (parts src) \<Longrightarrow> p \<noteq> []"
  by (simp add: parts_def)

lemma upFirst_nonempty: "p \<noteq> [] \<Longrightarrow> \<exists>r. upFirst p = Inr r"
  by (cases p) simp_all

lemma map_throwing_total:
  "(\<And>x. x \<in> set xs \<Longrightarrow> \<exists>y. f x = Inr y) \<Longrightarrow> \<exists>ys. map_throwing f xs = Inr ys"
proof (induction xs)
  case Nil
  then show ?case by simp
next
  case (Cons x xs)
  then obtain y ys where "f x = Inr y" and "map_throwing f xs = Inr ys"
    by (meson list.set_intros)
  then show ?case by simp
qed

lemma normalizeAssetName_returns: "\<exists>r. normalizeAssetName src cas = Inr r"
proof (cases "parts src")
  case Nil
  then show ?thesis by (simp add: normalizeAssetName_def)
next
  case (Cons firstpart otherParts)
  then have ne: "\<And>p. p \<in> set (firstpart # otherParts) \<Longrightarrow> p \<noteq> []"
    using parts_nonempty [of _ src] by simp
  then obtain f where f: "upFirst firstpart = Inr f"
    using upFirst_nonempty [of firstpart] by auto
  from ne have "\<And>p. p \<in> set otherParts \<Longrightarrow> \<exists>r. upFirst p = Inr r"
    by (intro upFirst_nonempty) simp
  then obtain os where os: "map_throwing upFirst otherParts = Inr os"
    using map_throwing_total [of otherParts upFirst] by auto
  show ?thesis
    by (cases cas) (simp_all add: normalizeAssetName_def Cons f os)
qed

subsection \<open>The loop of the resolver\<close>

lemma getValidName_loop_valid:
  "getValidName_loop base isValid i c = (Inr n, k) \<Longrightarrow> isValid n"
proof (induction base isValid i c rule: getValidName_loop.induct)
  case (1 base isValid i calls)
  show ?case
    using "1.prems" "1.IH"
    by (subst (asm) getValidName_loop.simps) (auto simp: Let_def split: if_splits)
qed

lemma getValidName_loop_never:
  "i \<le> 10001 \<Longrightarrow>
   getValidName_loop base (\<lambda>n. False) i c =
     (Inl (Error (str ''unexpected infinite loop with base '' @ base)), c + (10002 - i))"
proof (induction base "\<lambda>n::jsstring. False" i c rule: getValidName_loop.induct)
  case (1 base i calls)
  show ?case
  proof (cases "i > 10000")
    case True
    with "1.prems" have "i = 10001" by simp
    then show ?thesis
      by (subst getValidName_loop.simps) (simp add: Let_def)
  next
    case False
    then have "getValidName_loop base (\<lambda>n. False) i calls =
        getValidName_loop base (\<lambda>n. False) (i + 1) (calls + 1)"
      by (subst getValidName_loop.simps) (simp add: Let_def)
    also have "\<dots> = (Inl (Error (str ''unexpected infinite loop with base '' @ base)),
        calls + 1 + (10002 - (i + 1)))"
      using False by (intro "1.hyps") simp_all
    finally show ?thesis using False by simp
  qed
qed

lemma getValidName_loop_all_invalid:
  assumes "\<And>n. \<not> isValid n" and "i \<le> 10001"
  shows "getValidName_loop base isValid i c =
     (Inl (Error (str ''unexpected infinite loop with base '' @ base)), c + (10002 - i))"
proof -
  have "isValid = (\<lambda>n. False)" using assms(1) by (intro ext) simp
  then show ?thesis using getValidName_loop_never [OF assms(2)] by simp
qed

lemma getValidName_loop_candidates_invalid:
  assumes "\<And>j. i \<le> j \<Longrightarrow> j \<le> 10001 \<Longrightarrow> \<not> isValid (candidate base j)" and "i \<le> 10001"
  shows "getValidName_loop base isValid i c =
     (Inl (Error (str ''unexpected infinite loop with base '' @ base)), c + (10002 - i))"
  using assms
proof (induction base isValid i c rule: getValidName_loop.induct)
  case (1 base isValid i calls)
  from "1.prems" have rejected: "\<not> isValid (if i = 1 then base else base @ numberToString i)"
    using "1.prems"(1) [of i] by (simp add: candidate_def)
  show ?case
  proof (cases "i > 10000")
    case True
    with "1.prems" have "i = 10001" by simp
    with rejected show ?thesis
      by (subst getValidName_loop.simps) (simp add: Let_def)
  next
    case False
    with rejected have "getValidName_loop base isValid i calls =
        getValidName_loop base isValid (i + 1) (calls + 1)"
      by (subst getValidName_loop.simps) (simp add: Let_def)
    also have "\<dots> = (Inl (Error (str ''unexpected infinite loop with base '' @ base)),
        calls + 1 + (10002 - (i + 1)))"
    proof (rule "1.IH")
      show "\<not> isValid (if i = 1 then base else base @ numberToString i)" by (rule rejected)
      show "\<not> 10000 < i" by (rule False)
      show "\<not> isValid (candidate base j)" if "i + 1 \<le> j" "j \<le> 10001" for j
        using that "1.prems"(1) [of j] by simp
      show "i + 1 \<le> 10001" using False by simp
    qed simp
    finally show ?thesis using False by simp
  qed
qed

lemma candidate_append: "\<exists>s. candidate base i = base @ s"
  by (simp add: candidate_def)

lemma getValidName_loop_calls_le:
  "i \<le> 10001 \<Longrightarrow> snd (getValidName_loop base isValid i c) \<le> c + (10002 - i)"
proof (induction base isValid i c rule: getValidName_loop.induct)
  case (1 base isValid i calls)
  let ?name = "if i = 1 then base else base @ numberToString i"
  show ?case
  proof (cases "isValid ?name \<or> i > 10000")
    case True
    with "1.prems" show ?thesis
      by (subst getValidName_loop.simps) (auto simp: Let_def)
  next
    case False
    then have step: "getValidName_loop base isValid i calls =
        getValidName_loop base isValid (i + 1) (calls + 1)"
      by (subst getValidName_loop.simps) (simp add: Let_def)
    have "snd (getValidName_loop base isValid (i + 1) (calls + 1))
        \<le> calls + 1 + (10002 - (i + 1))"
      using False by (intro "1.IH") auto
    moreover have "calls + 1 + (10002 - (i + 1)) = calls + (10002 - i)"
      using False by arith
    ultimately show ?thesis unfolding step by (simp only:)
  qed
qed

lemma getValidName_valid: "getValidName base isValid = Inr n \<Longrightarrow> isValid n"
  unfolding getValidName_def
  by (cases "getValidName_loop base isValid 1 0") (auto dest: getValidName_loop_valid)

subsection \<open>Evaluation on concrete inputs\<close>

lemmas char_defs = str_def underscore_def isUpper_def isLower_def isDigit_def isCJK_def
  isWordChar_def isLetter_def isNameStart_def isNamePart_def

lemmas normalize_defs = normalizeAssetName_def normalizedOr_def parts_def split_def
  stripStart_def markUpper_def toLowerCase_def toUpperCase_def

lemmas validate_defs = validateAssetName_def validateSpriteName_def validateCostumeName_def
  validateSoundName_def validateBackdropName_def

lemmas example_defs = example_spx_def example_sprite_def example_project_def
  example_stage_def foo_project_def

lemma ex_sprite: "getSpriteName example_spx (Some example_project) (str ''cat'') = Inr (str ''Cat2'')"
  by (simp add: getSpriteName_def getValidName_def getValidName_loop.simps numberToString.simps
      normalize_defs validate_defs example_defs char_defs)

lemma ex_costume: "getCostumeName example_spx (Some example_sprite) (str ''Walk'') = Inr (str ''walk3'')"
  by (simp add: getCostumeName_def getValidName_def getValidName_loop.simps numberToString.simps
      normalize_defs validate_defs example_defs char_defs)

lemma ex_sound: "getSoundName example_spx (Some example_project) (str ''Meow!'') = Inr (str ''meow2'')"
  by (simp add: getSoundName_def getValidName_def getValidName_loop.simps numberToString.simps
      normalize_defs validate_defs example_defs char_defs)

lemma ex_backdrop: "getBackdropName example_spx (Some example_stage) [0x80CC, 0x666F] = Inr (str ''backdrop2'')"
  by (simp add: getBackdropName_def getValidName_def getValidName_loop.simps numberToString.simps
      normalize_defs validate_defs example_defs char_defs)

subsection \<open>The grammar validator\<close>

text \<open>The four messages of \<open>validateAssetName\<close> differ, the two reserved-word checks share one.\<close>

lemma messages_distinct:
  "msg_blank \<noteq> msg_too_long" "msg_blank \<noteq> msg_invalid" "msg_blank \<noteq> msg_keyword"
  "msg_too_long \<noteq> msg_invalid" "msg_too_long \<noteq> msg_keyword" "msg_invalid \<noteq> msg_keyword"
  by (simp_all add: msg_blank_def msg_too_long_def msg_invalid_def msg_keyword_def)

text \<open>The regular expression, read as the claim writes it: a first unit of the start class,
  then units of the continuation class only.\<close>

lemma regex_test_iff:
  "regex_test name \<longleftrightarrow>
     name \<noteq> [] \<and> isNameStart (hd name) \<and> (\<forall>c \<in> set (tl name). isNamePart c)"
  by (cases name) (simp_all add: list_all_iff)

text \<open>
  Claim C2. \<open>validateAssetName\<close> checks blank, then too long (more than 100 code units),
  then the grammar, then the reserved words, and returns the message of the first rule that
  fails; it returns no error exactly when the name is non-empty, of at most 100 code units,
  matches the regular expression (\<open>regex_test_iff\<close>) and is in neither reserved table.
\<close>

theorem validateAssetName_precedence:
  "(name = [] \<longrightarrow> validateAssetName kw name = Some msg_blank) \<and>
   (name \<noteq> [] \<and> length name > 100 \<longrightarrow> validateAssetName kw name = Some msg_too_long) \<and>
   (name \<noteq> [] \<and> length name \<le> 100 \<and> \<not> regex_test name \<longrightarrow>
      validateAssetName kw name = Some msg_invalid) \<and>
   (name \<noteq> [] \<and> length name \<le> 100 \<and> regex_test name \<and>
      (name \<in> set (typeKeywords kw) \<or> name \<in> set (keywords kw)) \<longrightarrow>
      validateAssetName kw name = Some msg_keyword) \<and>
   (validateAssetName kw name = None \<longleftrightarrow>
      name \<noteq> [] \<and> length name \<le> 100 \<and> regex_test name \<and>
      name \<notin> set (typeKeywords kw) \<and> name \<notin> set (keywords kw))"
  by (simp add: validateAssetName_def)

theorem validateAssetName_precedence_witness:
  "validateAssetName example_spx [] = Some msg_blank \<and>
   validateAssetName example_spx (replicate 101 0x61) = Some msg_too_long \<and>
   validateAssetName example_spx (str ''1st'') = Some msg_invalid \<and>
   validateAssetName example_spx (str ''int'') = Some msg_keyword \<and>
   validateAssetName example_spx (str ''func'') = Some msg_keyword \<and>
   validateAssetName example_spx (str ''Cat_2'') = None"
proof -
  have blank: "validateAssetName example_spx [] = Some msg_blank"
    using validateAssetName_precedence [of "[]" example_spx] by simp
  have long: "validateAssetName example_spx (replicate 101 0x61) = Some msg_too_long"
    using validateAssetName_precedence [of "replicate 101 0x61" example_spx] by simp
  have "str ''1st'' \<noteq> []" "length (str ''1st'') \<le> 100" "\<not> regex_test (str ''1st'')"
    by (simp_all add: char_defs)
  then have invalid: "validateAssetName example_spx (str ''1st'') = Some msg_invalid"
    using validateAssetName_precedence [of "str ''1st''" example_spx] by simp
  have "str ''int'' \<noteq> []" "length (str ''int'') \<le> 100" "regex_test (str ''int'')"
    "str ''int'' \<in> set (typeKeywords example_spx)"
    by (simp_all add: char_defs example_defs)
  then have type: "validateAssetName example_spx (str ''int'') = Some msg_keyword"
    using validateAssetName_precedence [of "str ''int''" example_spx] by simp
  have "str ''func'' \<noteq> []" "length (str ''func'') \<le> 100" "regex_test (str ''func'')"
    "str ''func'' \<in> set (keywords example_spx)"
    by (simp_all add: char_defs example_defs)
  then have keyword: "validateAssetName example_spx (str ''func'') = Some msg_keyword"
    using validateAssetName_precedence [of "str ''func''" example_spx] by simp
  have "str ''Cat_2'' \<noteq> []" "length (str ''Cat_2'') \<le> 100" "regex_test (str ''Cat_2'')"
    "str ''Cat_2'' \<notin> set (typeKeywords example_spx)"
    "str ''Cat_2'' \<notin> set (keywords example_spx)"
    by (simp_all add: char_defs example_defs)
  then have valid: "validateAssetName example_spx (str ''Cat_2'') = None"
    using validateAssetName_precedence [of "str ''Cat_2''" example_spx] by simp
  from blank long invalid type keyword valid show ?thesis by (intro conjI)
qed

subsection \<open>Generated names are valid\<close>

text \<open>
  Claim C1. Whenever \<open>getSpriteName\<close> returns a name (it does not throw), the name passes
  \<open>validateSpriteName\<close> in the same project; likewise for costumes, sounds and backdrops
  with their validators and scopes.
\<close>

theorem generated_names_validate:
  "(getSpriteName kw project base = Inr n \<longrightarrow> validateSpriteName kw n project = None) \<and>
   (getCostumeName kw sprite base = Inr n \<longrightarrow> validateCostumeName kw n sprite = None) \<and>
   (getSoundName kw project base = Inr n \<longrightarrow> validateSoundName kw n project = None) \<and>
   (getBackdropName kw stage base = Inr n \<longrightarrow> validateBackdropName kw n stage = None)"
proof (intro conjI impI)
  assume "getSpriteName kw project base = Inr n"
  then show "validateSpriteName kw n project = None"
    by (auto simp: getSpriteName_def split: sum.splits dest: getValidName_valid)
next
  assume "getCostumeName kw sprite base = Inr n"
  then show "validateCostumeName kw n sprite = None"
    by (auto simp: getCostumeName_def split: sum.splits dest: getValidName_valid)
next
  assume "getSoundName kw project base = Inr n"
  then show "validateSoundName kw n project = None"
    by (auto simp: getSoundName_def split: sum.splits dest: getValidName_valid)
next
  assume "getBackdropName kw stage base = Inr n"
  then show "validateBackdropName kw n stage = None"
    by (auto simp: getBackdropName_def split: sum.splits dest: getValidName_valid)
qed

theorem generated_names_validate_witness:
  "getSpriteName example_spx (Some example_project) (str ''cat'') = Inr (str ''Cat2'') \<and>
   validateSpriteName example_spx (str ''Cat2'') (Some example_project) = None \<and>
   getCostumeName example_spx (Some example_sprite) (str ''Walk'') = Inr (str ''walk3'') \<and>
   validateCostumeName example_spx (str ''walk3'') (Some example_sprite) = None \<and>
   getSoundName example_spx (Some example_project) (str ''Meow!'') = Inr (str ''meow2'') \<and>
   validateSoundName example_spx (str ''meow2'') (Some example_project) = None \<and>
   getBackdropName example_spx (Some example_stage) [0x80CC, 0x666F] = Inr (str ''backdrop2'') \<and>
   validateBackdropName example_spx (str ''backdrop2'') (Some example_stage) = None"
proof -
  have "validateSpriteName example_spx (str ''Cat2'') (Some example_project) = None"
    using ex_sprite generated_names_validate [where kw = example_spx
        and project = "Some example_project" and base = "str ''cat''" and n = "str ''Cat2''"]
    by simp
  moreover have "validateCostumeName example_spx (str ''walk3'') (Some example_sprite) = None"
    using ex_costume generated_names_validate [where kw = example_spx
        and sprite = "Some example_sprite" and base = "str ''Walk''" and n = "str ''walk3''"]
    by simp
  moreover have "validateSoundName example_spx (str ''meow2'') (Some example_project) = None"
    using ex_sound generated_names_validate [where kw = example_spx
        and project = "Some example_project" and base = "str ''Meow!''" and n = "str ''meow2''"]
    by simp
  moreover have "validateBackdropName example_spx (str ''backdrop2'') (Some example_stage) = None"
    using ex_backdrop generated_names_validate [where kw = example_spx
        and stage = "Some example_stage" and base = "[0x80CC, 0x666F]" and n = "str ''backdrop2''"]
    by simp
  ultimately show ?thesis
    using ex_sprite ex_costume ex_sound ex_backdrop by simp
qed

subsection \<open>Scoped validators\<close>

lemma find_None_names: "find (\<lambda>x. f x = name) xs = None \<longleftrightarrow> name \<notin> f ` set xs"
  by (auto simp: find_None_iff)

text \<open>
  Claim C3. \<open>validateSpriteName\<close> returns no error if and only if \<open>validateAssetName\<close>
  returns none and the project is absent or has neither a sprite nor a sound of that name;
  with no project it returns what \<open>validateAssetName\<close> returns.
\<close>

theorem validateSpriteName_None_iff:
  "(validateSpriteName kw name project = None \<longleftrightarrow>
      validateAssetName kw name = None \<and>
      (case project of
         None \<Rightarrow> True
       | Some p \<Rightarrow> name \<notin> sprite_name ` set (sprites p) \<and> name \<notin> sound_name ` set (sounds p))) \<and>
   validateSpriteName kw name None = validateAssetName kw name"
  by (auto simp: validateSpriteName_def find_None_names split: option.splits)

theorem validateSpriteName_None_iff_witness:
  "validateSpriteName example_spx (str ''Dog'') (Some example_project) = None \<and>
   validateSpriteName example_spx (str ''Cat'') (Some example_project) \<noteq> None \<and>
   validateSpriteName example_spx (str ''meow'') (Some example_project) \<noteq> None \<and>
   validateSpriteName example_spx (str ''meow'') None = None"
proof -
  have asset: "validateAssetName example_spx (str ''Dog'') = None"
    "validateAssetName example_spx (str ''Cat'') = None"
    "validateAssetName example_spx (str ''meow'') = None"
    by (simp_all add: validateAssetName_def example_defs char_defs)
  have names: "sprite_name ` set (sprites example_project) = {str ''Cat''}"
    "sound_name ` set (sounds example_project) = {str ''meow''}"
    by (simp_all add: example_defs)
  have neq: "str ''Dog'' \<noteq> str ''Cat''" "str ''Dog'' \<noteq> str ''meow''"
    by (simp_all add: str_def)
  have "validateSpriteName example_spx (str ''Dog'') (Some example_project) = None"
    using validateSpriteName_None_iff [of example_spx "str ''Dog''" "Some example_project"]
    by (simp add: asset names neq)
  moreover have "validateSpriteName example_spx (str ''Cat'') (Some example_project) \<noteq> None"
    using validateSpriteName_None_iff [of example_spx "str ''Cat''" "Some example_project"]
    by (simp add: asset names)
  moreover have "validateSpriteName example_spx (str ''meow'') (Some example_project) \<noteq> None"
    using validateSpriteName_None_iff [of example_spx "str ''meow''" "Some example_project"]
    by (simp add: asset names)
  moreover have "validateSpriteName example_spx (str ''meow'') None = None"
    using validateSpriteName_None_iff [of example_spx "str ''meow''" None]
    by (simp add: asset)
  ultimately show ?thesis by (intro conjI)
qed

text \<open>
  Claim C5. \<open>validateSoundName\<close> returns what \<open>validateSpriteName\<close> returns, for every
  name and project.
\<close>

theorem validateSoundName_eq_validateSpriteName:
  "validateSoundName kw name project = validateSpriteName kw name project"
  by (simp add: validateSoundName_def)

theorem validateSoundName_eq_validateSpriteName_witness:
  "validateSoundName example_spx (str ''Cat'') (Some example_project) =
     Some (msg_sprite_exists (str ''Cat''))"
proof -
  have "validateSpriteName example_spx (str ''Cat'') (Some example_project) =
      Some (msg_sprite_exists (str ''Cat''))"
    by (simp add: validate_defs example_defs char_defs)
  then show ?thesis
    using validateSoundName_eq_validateSpriteName [of example_spx "str ''Cat''" "Some example_project"]
    by simp
qed

subsection \<open>The resolver\<close>

text \<open>
  Claim C4, as amended. With an \<open>isValid\<close> that rejects every candidate the loop tries
  (\<open>base\<close>, then \<open>base\<close> followed by the digits of \<open>i\<close> for \<open>i\<close> from 2 to 10001),
  whatever it says of other names, \<open>getValidName\<close> throws rather than looping, after it
  has called \<open>isValid\<close> exactly 10001 times: the guard \<^verbatim>\<open>i > 10000\<close> is tested
  after the candidate of iteration \<open>i\<close>, so the candidate of iteration 10001 is still
  tried.
\<close>

theorem getValidName_always_invalid:
  "(\<forall>i. 1 \<le> i \<and> i \<le> 10001 \<longrightarrow> \<not> isValid (candidate base i)) \<Longrightarrow>
   getValidName base isValid = Inl (Error (str ''unexpected infinite loop with base '' @ base)) \<and>
   getValidName_calls base isValid = 10001"
  using getValidName_loop_candidates_invalid [of 1 isValid base 0]
  by (simp add: getValidName_def getValidName_calls_def)

text \<open>Claim C4, at a predicate that accepts a name, but none of the candidates after
  \<^verbatim>\<open>Sprite\<close>.\<close>

theorem getValidName_always_invalid_witness:
  "getValidName (str ''Sprite'') (\<lambda>n. n = str ''zzz'') =
     Inl (Error (str ''unexpected infinite loop with base '' @ str ''Sprite'')) \<and>
   getValidName_calls (str ''Sprite'') (\<lambda>n. n = str ''zzz'') = 10001"
proof -
  have "candidate (str ''Sprite'') i \<noteq> str ''zzz''" for i
    using candidate_append [of "str ''Sprite''" i] by (auto simp: str_def)
  then show ?thesis
    using getValidName_always_invalid [of "\<lambda>n. n = str ''zzz''" "str ''Sprite''"] by simp
qed

text \<open>
  Claim C4 as stated bounds the calls of \<open>isValid\<close> by 10000; they are 10001.
\<close>

theorem getValidName_calls_counterexample:
  "getValidName (str ''Sprite'') (\<lambda>n. False) =
     Inl (Error (str ''unexpected infinite loop with base '' @ str ''Sprite'')) \<and>
   \<not> getValidName_calls (str ''Sprite'') (\<lambda>n. False) \<le> 10000"
  using getValidName_loop_all_invalid [of "\<lambda>n. False" 1 "str ''Sprite''" 0]
  by (simp add: getValidName_def getValidName_calls_def)

subsection \<open>Ensuring a valid name\<close>

text \<open>
  Claim C6. A name that \<open>validateSpriteName\<close> accepts in a project is returned unchanged by
  \<open>ensureValidSpriteName\<close>.
\<close>

theorem ensureValidSpriteName_unchanged:
  "validateSpriteName kw n project = None \<Longrightarrow> ensureValidSpriteName kw n project = Inr n"
  by (simp add: ensureValidSpriteName_def)

theorem ensureValidSpriteName_unchanged_witness:
  "validateSpriteName example_spx (str ''big_Dog'') (Some example_project) = None \<and>
   ensureValidSpriteName example_spx (str ''big_Dog'') (Some example_project) = Inr (str ''big_Dog'')"
proof -
  have v: "validateSpriteName example_spx (str ''big_Dog'') (Some example_project) = None"
    by (simp add: validate_defs example_defs char_defs)
  from v ensureValidSpriteName_unchanged [OF v] show ?thesis by (intro conjI)
qed

lemma ensureValidCostumeName_valid:
  assumes "ensureValidCostumeName kw name sprite = Inr n"
  shows "validateCostumeName kw n sprite = None"
proof (cases "validateCostumeName kw name sprite = None")
  case True
  with assms show ?thesis by (simp add: ensureValidCostumeName_def)
next
  case False
  with assms have "getCostumeName kw sprite name = Inr n"
    by (simp add: ensureValidCostumeName_def)
  then show ?thesis
    by (auto simp: getCostumeName_def split: sum.splits dest: getValidName_valid)
qed

lemma ex_ensure_costume:
  "ensureValidCostumeName example_spx (str ''walk'') (Some example_sprite) = Inr (str ''walk3'')"
  by (simp add: ensureValidCostumeName_def getCostumeName_def getValidName_def
      getValidName_loop.simps numberToString.simps normalize_defs validate_defs example_defs char_defs)

text \<open>
  Claim C7. \<open>ensureValidCostumeName\<close> is idempotent for a fixed sprite: applied to its own
  result it returns that result, and where the first application throws, so does the
  composition.
\<close>

theorem ensureValidCostumeName_idempotent:
  "(case ensureValidCostumeName kw name sprite of
      Inl e \<Rightarrow> Inl e
    | Inr n \<Rightarrow> ensureValidCostumeName kw n sprite) = ensureValidCostumeName kw name sprite"
proof (cases "ensureValidCostumeName kw name sprite")
  case (Inl e)
  then show ?thesis by simp
next
  case (Inr n)
  then have "validateCostumeName kw n sprite = None"
    by (rule ensureValidCostumeName_valid)
  then have "ensureValidCostumeName kw n sprite = Inr n"
    by (simp add: ensureValidCostumeName_def)
  with Inr show ?thesis by simp
qed

theorem ensureValidCostumeName_idempotent_witness:
  "ensureValidCostumeName example_spx (str ''walk'') (Some example_sprite) = Inr (str ''walk3'') \<and>
   ensureValidCostumeName example_spx (str ''walk3'') (Some example_sprite) = Inr (str ''walk3'')"
  using ex_ensure_costume
    ensureValidCostumeName_idempotent [where kw = example_spx and name = "str ''walk''"
      and sprite = "Some example_sprite"]
  by simp

subsection \<open>The sprite name after \<^verbatim>\<open>Foo\<close>\<close>

lemma normalize_Foo: "normalizedOr (str ''Foo'') Pascal (str ''Sprite'') = Inr (str ''Foo'')"
  by (simp add: normalize_defs char_defs)

lemma Foo2: "str ''Foo'' @ numberToString 2 = str ''Foo2''"
  by (simp add: numberToString.simps str_def)

lemma Foo2_Suc: "str ''Foo'' @ numberToString (Suc (Suc 0)) = str ''Foo2''"
  using Foo2 by (simp add: numeral_2_eq_2)

lemma regex_Foo2: "regex_test (str ''Foo2'')" "str ''Foo2'' \<noteq> []" "length (str ''Foo2'') = 4"
  by (simp_all add: char_defs)

text \<open>
  Claim C8, as amended. In a project with a sprite named \<^verbatim>\<open>Foo\<close> and neither a sprite
  nor a sound named \<^verbatim>\<open>Foo2\<close>, \<^verbatim>\<open>Foo2\<close> not being a reserved word,
  \<open>getSpriteName\<close> on the base \<^verbatim>\<open>Foo\<close> returns \<^verbatim>\<open>Foo2\<close>.
\<close>

theorem getSpriteName_Foo:
  assumes "str ''Foo'' \<in> sprite_name ` set (sprites p)"
    and "str ''Foo2'' \<notin> sprite_name ` set (sprites p)"
    and "str ''Foo2'' \<notin> sound_name ` set (sounds p)"
    and "str ''Foo2'' \<notin> set (typeKeywords kw)"
    and "str ''Foo2'' \<notin> set (keywords kw)"
  shows "getSpriteName kw (Some p) (str ''Foo'') = Inr (str ''Foo2'')"
proof -
  let ?isValid = "\<lambda>n. validateSpriteName kw n (Some p) = None"
  from assms(1) have taken: "\<not> ?isValid (str ''Foo'')"
    by (auto simp: validateSpriteName_def find_None_names split: option.splits)
  have "validateAssetName kw (str ''Foo2'') = None"
    using assms(4,5) by (simp add: validateAssetName_def regex_Foo2)
  with assms(2,3) have free: "?isValid (str ''Foo2'')"
    by (simp add: validateSpriteName_def find_None_names)
  have "getValidName_loop (str ''Foo'') ?isValid 1 0 =
      getValidName_loop (str ''Foo'') ?isValid (1 + 1) (0 + 1)"
    by (subst getValidName_loop.simps) (simp add: Let_def taken)
  also have "\<dots> = (Inr (str ''Foo2''), 0 + 1 + 1)"
    by (subst getValidName_loop.simps) (simp add: Let_def Foo2_Suc free)
  finally have "getValidName (str ''Foo'') ?isValid = Inr (str ''Foo2'')"
    by (simp add: getValidName_def)
  then show ?thesis
    by (simp add: getSpriteName_def normalize_Foo)
qed

theorem getSpriteName_Foo_witness:
  "getSpriteName example_spx (Some foo_only) (str ''Foo'') = Inr (str ''Foo2'')"
proof -
  have "str ''Foo2'' \<noteq> str ''Foo''" by (simp add: str_def)
  then show ?thesis
    using getSpriteName_Foo [of foo_only example_spx]
    by (simp add: foo_only_def example_defs) (simp add: str_def)
qed

text \<open>
  Claim C8 as stated fails in a project whose sprites are \<^verbatim>\<open>Foo\<close> and \<^verbatim>\<open>Foo2\<close>:
  the resolver goes on to \<^verbatim>\<open>Foo3\<close>.
\<close>

theorem getSpriteName_Foo_counterexample:
  "str ''Foo'' \<in> sprite_name ` set (sprites foo_project) \<and>
   getSpriteName example_spx (Some foo_project) (str ''Foo'') = Inr (str ''Foo3'') \<and>
   str ''Foo3'' \<noteq> str ''Foo2''"
  by (simp add: getSpriteName_def getValidName_def getValidName_loop.simps numberToString.simps
      normalize_defs validate_defs example_defs char_defs)

subsection \<open>The normaliser\<close>

text \<open>
  Claim C9. The four examples of \<open>normalizeAssetName\<close>: \<^verbatim>\<open>Hello World!\<close> in camel and in
  pascal case, \<^verbatim>\<open>123abc\<close>, whose leading digits are stripped, and the empty string.
\<close>

theorem normalizeAssetName_examples:
  "normalizeAssetName (str ''Hello World!'') Camel = Inr (str ''helloWorld'') \<and>
   normalizeAssetName (str ''Hello World!'') Pascal = Inr (str ''HelloWorld'') \<and>
   normalizeAssetName (str ''123abc'') Camel = Inr (str ''abc'') \<and>
   normalizeAssetName (str '''') Camel = Inr (str '''')"
  by (simp add: normalize_defs char_defs)

text \<open>
  Claim C10. \<open>normalizeAssetName\<close> returns for every input and either style: every
  fragment in \<open>parts\<close> is non-empty, so \<open>upFirst\<close> never reads the first unit of an
  empty string.
\<close>

theorem normalizeAssetName_total:
  "(\<forall>p \<in> set (parts src). p \<noteq> [] \<and> (\<exists>r. upFirst p = Inr r)) \<and>
   (\<exists>r. normalizeAssetName src cas = Inr r)"
  using normalizeAssetName_returns [of src cas] parts_nonempty [of _ src] upFirst_nonempty
  by blast

theorem normalizeAssetName_total_witness:
  "parts (str ''my 2nd_Sprite'') = [str ''my'', str ''2nd'', str ''sprite''] \<and>
   upFirst (str ''2nd'') = Inr (str ''2nd'') \<and>
   (\<exists>r. normalizeAssetName (str ''my 2nd_Sprite'') Pascal = Inr r)"
proof -
  have "parts (str ''my 2nd_Sprite'') = [str ''my'', str ''2nd'', str ''sprite'']"
    by (simp add: normalize_defs char_defs)
  moreover have "upFirst (str ''2nd'') = Inr (str ''2nd'')"
    by (simp add: normalize_defs char_defs)
  ultimately show ?thesis
    using normalizeAssetName_total [of "str ''my 2nd_Sprite''" Pascal] by simp
qed

end
